theory Spec2Isabelle
  imports Main
begin

section \<open>Data model of the BuildByStrategy admission plugin\<close>

text \<open>
  A shallow embedding of \<^verbatim>\<open>pkg/build/admission/strategyrestrictions/admission.go\<close>.
  Go strings are byte lists (\<open>string\<close>), a nilable pointer or interface is an
  \<open>option\<close>, a Go \<^verbatim>\<open>error\<close> result is an \<open>error option\<close> (\<open>None\<close> is \<^verbatim>\<open>nil\<close>).
\<close>

subsection \<open>Group-qualified resources\<close>

record groupResource =
  gr_Group :: string
  gr_Resource :: string

record groupVersionResource =
  gvr_Group :: string
  gvr_Version :: string
  gvr_Resource :: string

definition GroupResource :: "groupVersionResource \<Rightarrow> groupResource" where
  \<comment> \<open>\<^verbatim>\<open>schema.GroupVersionResource.GroupResource()\<close>: drops the version.\<close>
  "GroupResource gvr = \<lparr>gr_Group = gvr_Group gvr, gr_Resource = gvr_Resource gvr\<rparr>"

text \<open>
  The constants of the imported packages \<^verbatim>\<open>buildapi\<close> and \<^verbatim>\<open>bootstrappolicy\<close> are declared
  in other source files. They are taken as parameters, so every result below holds for each
  value they may have.
\<close>

record constants =
  GroupName :: string
  LegacyGroupName :: string
  ImageOptimizationNone :: string
  DockerBuildResource :: string
  OptimizedDockerBuildResource :: string
  CustomBuildResource :: string
  SourceBuildResource :: string
  JenkinsPipelineBuildResource :: string

definition Resource :: "constants \<Rightarrow> string \<Rightarrow> groupResource" where
  \<comment> \<open>Modelled from the spec: \<^verbatim>\<open>buildapi.Resource\<close> is declared in
      \<^verbatim>\<open>pkg/build/apis/build\<close>. A resource identifier is a group with a resource string;
      this one is the given resource string in the group of the build API.\<close>
  "Resource k r = \<lparr>gr_Group = GroupName k, gr_Resource = r\<rparr>"

definition LegacyResource :: "constants \<Rightarrow> string \<Rightarrow> groupResource" where
  \<comment> \<open>Modelled from the spec: \<^verbatim>\<open>buildapi.LegacyResource\<close> is declared in
      \<^verbatim>\<open>pkg/build/apis/build\<close>. It is the given resource string in the legacy group.\<close>
  "LegacyResource k r = \<lparr>gr_Group = LegacyGroupName k, gr_Resource = r\<rparr>"

subsection \<open>Build objects\<close>

record objectMeta =
  Name :: string
  GenerateName :: string
  OwnerReferences :: "string list"
  Finalizers :: "string list"

text \<open>
  The strategy is a struct of four nilable pointers. Of the structs pointed to, the plugin
  reads one field only, the image optimization policy of the Docker strategy (itself a
  nilable pointer to a string); the other fields are left out.
\<close>

record dockerBuildStrategy =
  ImageOptimizationPolicy :: "string option"

datatype customBuildStrategy = CustomBuildStrategy
datatype sourceBuildStrategy = SourceBuildStrategy
datatype jenkinsPipelineBuildStrategy = JenkinsPipelineBuildStrategy

record buildStrategy =
  DockerStrategy :: "dockerBuildStrategy option"
  SourceStrategy :: "sourceBuildStrategy option"
  CustomStrategy :: "customBuildStrategy option"
  JenkinsPipelineStrategy :: "jenkinsPipelineBuildStrategy option"

record commonSpec =
  Strategy :: buildStrategy

record build =
  build_ObjectMeta :: objectMeta
  build_Spec :: commonSpec

record buildConfig =
  bc_ObjectMeta :: objectMeta
  bc_Spec :: commonSpec

record buildRequest =
  br_ObjectMeta :: objectMeta

text \<open>
  The dynamic type of the object of a request, as the type switch of \<^verbatim>\<open>Admit\<close> sees it:
  \<open>OtherObject\<close> stands for a value of any other type (the nil interface among them),
  named by its description. The pointers to a build, a build configuration or a build
  request are taken to be non-nil.
\<close>

datatype object =
  Build build
| BuildConfig buildConfig
| BuildRequest buildRequest
| OtherObject string

subsection \<open>Request attributes\<close>

datatype operation = Create | Update | Delete | Connect

record userInfo =
  user_Name :: string
  user_Groups :: "string list"

record attributes =
  GetOperation :: operation
  GetResource :: groupVersionResource
  GetSubresource :: string
  GetNamespace :: string
  GetUserInfo :: userInfo
  GetObject :: object
  GetOldObject :: "object option"

subsection \<open>Errors and outcomes\<close>

text \<open>
  The error values the plugin can return. An error returned by a collaborator is made
  outside the plugin: it is \<open>Upstream\<close> of its message, distinct from every error the
  plugin builds itself with \<^verbatim>\<open>fmt.Errorf\<close>. \<open>NewForbidden attr err\<close> is the rejection
  \<^verbatim>\<open>admission.NewForbidden(attr, err)\<close>, which carries the request and the cause.
\<close>

type_synonym upstreamError = string

datatype error =
  Errorf string
    \<comment> \<open>\<^verbatim>\<open>fmt.Errorf\<close> with the message rendered\<close>
| UnrecognizedBuildStrategy buildStrategy
    \<comment> \<open>\<^verbatim>\<open>fmt.Errorf("unrecognized build strategy: %#v", strategy)\<close>\<close>
| UnrecognizedRequestObject object
    \<comment> \<open>\<^verbatim>\<open>fmt.Errorf("unrecognized request object %#v", obj)\<close>\<close>
| UnknownResourceType groupVersionResource
    \<comment> \<open>\<^verbatim>\<open>fmt.Errorf("Unknown resource type %s for BuildRequest", attr.GetResource())\<close>\<close>
| Upstream upstreamError
| NewForbidden attributes error

text \<open>
  A call of a method on a nil interface value panics in Go; \<open>Panic\<close> is that outcome.
  \<open>Return None\<close> admits the request, \<open>Return (Some e)\<close> rejects it with \<open>e\<close>.
\<close>

datatype outcome = Return "error option" | Panic

subsection \<open>Collaborators\<close>

record resourceAttributes =
  ra_Namespace :: string
  ra_Verb :: string
  ra_Group :: string
  ra_Resource :: string
  ra_Subresource :: string
  ra_Name :: string

record subjectAccessReviewSpec =
  ResourceAttributes :: "resourceAttributes option"
  User :: string
  Groups :: "string list"

record subjectAccessReviewStatus =
  Allowed :: bool

record subjectAccessReview =
  sar_Spec :: subjectAccessReviewSpec
  sar_Status :: subjectAccessReviewStatus

text \<open>
  The build client returns wire objects, of types \<open>'b\<close> (a build) and \<open>'c\<close> (a build
  configuration) that the plugin only passes on to the conversion. A lookup takes the
  namespace and the name.
\<close>

record ('b, 'c) buildClientInterface =
  Builds_Get :: "string \<Rightarrow> string \<Rightarrow> upstreamError + 'b"
  BuildConfigs_Get :: "string \<Rightarrow> string \<Rightarrow> upstreamError + 'c"

record ('b, 'c) buildByStrategy =
  sarClient :: "(subjectAccessReview \<Rightarrow> upstreamError + subjectAccessReview) option"
  buildClient :: "('b, 'c) buildClientInterface option"

text \<open>
  Functions of other packages that the plugin calls: the comparison
  \<^verbatim>\<open>rbacregistry.IsOnlyMutatingGCFields\<close> of the new and the old object, and the two uses of
  \<^verbatim>\<open>buildscheme.InternalExternalScheme.Convert\<close>. They are parameters as well.
\<close>

record ('b, 'c) helpers =
  IsOnlyMutatingGCFields :: "object \<Rightarrow> object \<Rightarrow> bool"
  ConvertBuild :: "'b \<Rightarrow> upstreamError + build"
  ConvertBuildConfig :: "'c \<Rightarrow> upstreamError + buildConfig"

text \<open>The calls made to the two injected clients, in the order they are made.\<close>

datatype call =
  SarCreate subjectAccessReview
| BuildsGet string string
| BuildConfigsGet string string

fun isSarCreate :: "call \<Rightarrow> bool" where
  "isSarCreate (SarCreate _) = True"
| "isSarCreate _ = False"

section \<open>The operations\<close>

definition ValidateInitialization :: "('b, 'c) buildByStrategy \<Rightarrow> error option" where
  "ValidateInitialization a =
     (if buildClient a = None then Some (Errorf ''BuildByStrategy needs an Openshift buildClient'')
      else if sarClient a = None then Some (Errorf ''BuildByStrategy needs an Openshift sarClient'')
      else None)"

definition resourceForStrategyType :: "constants \<Rightarrow> buildStrategy \<Rightarrow> error + groupResource" where
  "resourceForStrategyType k strategy =
     (if DockerStrategy strategy \<noteq> None
         \<and> ImageOptimizationPolicy (the (DockerStrategy strategy)) \<noteq> None
         \<and> the (ImageOptimizationPolicy (the (DockerStrategy strategy))) \<noteq> ImageOptimizationNone k
      then Inr (Resource k (OptimizedDockerBuildResource k))
      else if DockerStrategy strategy \<noteq> None then Inr (Resource k (DockerBuildResource k))
      else if CustomStrategy strategy \<noteq> None then Inr (Resource k (CustomBuildResource k))
      else if SourceStrategy strategy \<noteq> None then Inr (Resource k (SourceBuildResource k))
      else if JenkinsPipelineStrategy strategy \<noteq> None
      then Inr (Resource k (JenkinsPipelineBuildResource k))
      else Inl (UnrecognizedBuildStrategy strategy))"

definition resourceName :: "objectMeta \<Rightarrow> string" where
  "resourceName objectMeta =
     (if length (GenerateName objectMeta) > 0 then GenerateName objectMeta
      else Name objectMeta)"

definition strategyTypeString :: "buildStrategy \<Rightarrow> string" where
  "strategyTypeString strategy =
     (if DockerStrategy strategy \<noteq> None then ''Docker''
      else if CustomStrategy strategy \<noteq> None then ''Custom''
      else if SourceStrategy strategy \<noteq> None then ''Source''
      else if JenkinsPipelineStrategy strategy \<noteq> None then ''JenkinsPipeline''
      else '''')"

definition notAllowed :: "buildStrategy \<Rightarrow> attributes \<Rightarrow> error" where
  "notAllowed strategy attr =
     NewForbidden attr
       (Errorf (''build strategy '' @ strategyTypeString strategy @ '' is not allowed''))"

definition checkAccess ::
  "('b, 'c) buildByStrategy \<Rightarrow> buildStrategy \<Rightarrow> subjectAccessReview \<Rightarrow> attributes
    \<Rightarrow> call list \<times> outcome" where
  "checkAccess a strategy subjectAccessReview attr =
     (case sarClient a of
        None \<Rightarrow> ([], Panic)
      | Some client \<Rightarrow>
          (case client subjectAccessReview of
             Inl err \<Rightarrow>
               ([SarCreate subjectAccessReview], Return (Some (NewForbidden attr (Upstream err))))
           | Inr resp \<Rightarrow>
               if \<not> Allowed (sar_Status resp)
               then ([SarCreate subjectAccessReview], Return (Some (notAllowed strategy attr)))
               else ([SarCreate subjectAccessReview], Return None)))"

definition SplitN2 :: "string \<Rightarrow> char \<Rightarrow> string list" where
  \<comment> \<open>\<^verbatim>\<open>strings.SplitN(s, sep, 2)\<close> for a separator of one byte: the text before the
      first separator and the whole text after it, or \<open>s\<close> alone when it has none.\<close>
  "SplitN2 s sep =
     (if sep \<in> set s
      then [takeWhile (\<lambda>c. c \<noteq> sep) s, tl (dropWhile (\<lambda>c. c \<noteq> sep) s)]
      else [s])"

definition AddUserToSAR :: "userInfo \<Rightarrow> subjectAccessReview \<Rightarrow> subjectAccessReview" where
  \<comment> \<open>Modelled from the spec: \<^verbatim>\<open>util.AddUserToSAR\<close> is declared in
      \<^verbatim>\<open>pkg/authorization/util\<close>, another source file. The spec's
      permission query is \<^verbatim>\<open>{namespace, verb, group, resource, subresource, name, identity}\<close>:
      the function adds the identity of the requesting user to the query and leaves the
      rest of it as it is.\<close>
  "AddUserToSAR user sar =
     sar\<lparr>sar_Spec := (sar_Spec sar)\<lparr>User := user_Name user, Groups := user_Groups user\<rparr>\<rparr>"

definition newSAR ::
  "attributes \<Rightarrow> groupResource \<Rightarrow> string \<Rightarrow> string \<Rightarrow> objectMeta \<Rightarrow> subjectAccessReview" where
  \<comment> \<open>The composite literal that \<^verbatim>\<open>checkBuildAuthorization\<close> and
      \<^verbatim>\<open>checkBuildConfigAuthorization\<close> both write out; the fields it does not set have
      Go's zero values.\<close>
  "newSAR attr resource resourceType subresource meta =
     \<lparr>sar_Spec =
        \<lparr>ResourceAttributes = Some
           \<lparr>ra_Namespace = GetNamespace attr,
            ra_Verb = ''create'',
            ra_Group = gr_Group resource,
            ra_Resource = resourceType,
            ra_Subresource = subresource,
            ra_Name = resourceName meta\<rparr>,
         User = '''',
         Groups = []\<rparr>,
      sar_Status = \<lparr>Allowed = False\<rparr>\<rparr>"

definition checkBuildAuthorization ::
  "constants \<Rightarrow> ('b, 'c) buildByStrategy \<Rightarrow> build \<Rightarrow> attributes \<Rightarrow> call list \<times> outcome" where
  "checkBuildAuthorization k a build attr =
     (let strategy = Strategy (build_Spec build) in
      case resourceForStrategyType k strategy of
        Inl err \<Rightarrow> ([], Return (Some (NewForbidden attr err)))
      | Inr resource \<Rightarrow>
          (let tokens = SplitN2 (gr_Resource resource) CHR ''/'';
               resourceType = tokens ! 0;
               subresource = (if length tokens = 2 then tokens ! 1 else '''');
               sar = AddUserToSAR (GetUserInfo attr)
                       (newSAR attr resource resourceType subresource (build_ObjectMeta build))
           in checkAccess a strategy sar attr))"

definition checkBuildConfigAuthorization ::
  "constants \<Rightarrow> ('b, 'c) buildByStrategy \<Rightarrow> buildConfig \<Rightarrow> attributes
    \<Rightarrow> call list \<times> outcome" where
  "checkBuildConfigAuthorization k a buildConfig attr =
     (let strategy = Strategy (bc_Spec buildConfig) in
      case resourceForStrategyType k strategy of
        Inl err \<Rightarrow> ([], Return (Some (NewForbidden attr err)))
      | Inr resource \<Rightarrow>
          (let tokens = SplitN2 (gr_Resource resource) CHR ''/'';
               resourceType = tokens ! 0;
               subresource = (if length tokens = 2 then tokens ! 1 else '''');
               sar = AddUserToSAR (GetUserInfo attr)
                       (newSAR attr resource resourceType subresource (bc_ObjectMeta buildConfig))
           in checkAccess a strategy sar attr))"

definition after :: "call \<Rightarrow> call list \<times> outcome \<Rightarrow> call list \<times> outcome" where
  \<comment> \<open>A client call followed by the rest of the function.\<close>
  "after c r = (c # fst r, snd r)"

definition checkBuildRequestAuthorization ::
  "constants \<Rightarrow> ('b, 'c) helpers \<Rightarrow> ('b, 'c) buildByStrategy \<Rightarrow> buildRequest \<Rightarrow> attributes
    \<Rightarrow> call list \<times> outcome" where
  "checkBuildRequestAuthorization k h a req attr =
     (let gr = GroupResource (GetResource attr) in
      if gr = Resource k ''builds'' \<or> gr = LegacyResource k ''builds'' then
        (case buildClient a of
           None \<Rightarrow> ([], Panic)
         | Some client \<Rightarrow>
             (case Builds_Get client (GetNamespace attr) (Name (br_ObjectMeta req)) of
                Inl err \<Rightarrow>
                  ([BuildsGet (GetNamespace attr) (Name (br_ObjectMeta req))],
                   Return (Some (NewForbidden attr (Upstream err))))
              | Inr build \<Rightarrow>
                  (case ConvertBuild h build of
                     Inl err \<Rightarrow>
                       ([BuildsGet (GetNamespace attr) (Name (br_ObjectMeta req))],
                        Return (Some (NewForbidden attr (Upstream err))))
                   | Inr internalBuild \<Rightarrow>
                       after (BuildsGet (GetNamespace attr) (Name (br_ObjectMeta req)))
                         (checkBuildAuthorization k a internalBuild attr))))
      else if gr = Resource k ''buildconfigs'' \<or> gr = LegacyResource k ''buildconfigs'' then
        (case buildClient a of
           None \<Rightarrow> ([], Panic)
         | Some client \<Rightarrow>
             (case BuildConfigs_Get client (GetNamespace attr) (Name (br_ObjectMeta req)) of
                Inl err \<Rightarrow>
                  ([BuildConfigsGet (GetNamespace attr) (Name (br_ObjectMeta req))],
                   Return (Some (NewForbidden attr (Upstream err))))
              | Inr buildConfig \<Rightarrow>
                  (case ConvertBuildConfig h buildConfig of
                     Inl err \<Rightarrow>
                       ([BuildConfigsGet (GetNamespace attr) (Name (br_ObjectMeta req))],
                        Return (Some (NewForbidden attr (Upstream err))))
                   | Inr internalBuildConfig \<Rightarrow>
                       after (BuildConfigsGet (GetNamespace attr) (Name (br_ObjectMeta req)))
                         (checkBuildConfigAuthorization k a internalBuildConfig attr))))
      else ([], Return (Some (NewForbidden attr (UnknownResourceType (GetResource attr))))))"

definition dispatch ::
  "constants \<Rightarrow> ('b, 'c) helpers \<Rightarrow> ('b, 'c) buildByStrategy \<Rightarrow> attributes
    \<Rightarrow> call list \<times> outcome" where
  \<comment> \<open>The statements of \<^verbatim>\<open>Admit\<close> after its switch on the resource: the test for an
      update of the garbage collection fields only, then the type switch on the object.\<close>
  "dispatch k h a attr =
     (if (case GetOldObject attr of
            None \<Rightarrow> False
          | Some old \<Rightarrow> IsOnlyMutatingGCFields h (GetObject attr) old)
      then ([], Return None)
      else
        (case GetObject attr of
           Build obj \<Rightarrow> checkBuildAuthorization k a obj attr
         | BuildConfig obj \<Rightarrow> checkBuildConfigAuthorization k a obj attr
         | BuildRequest obj \<Rightarrow> checkBuildRequestAuthorization k h a obj attr
         | OtherObject obj \<Rightarrow>
             ([], Return (Some (NewForbidden attr (UnrecognizedRequestObject (OtherObject obj)))))))"

definition Admit ::
  "constants \<Rightarrow> ('b, 'c) helpers \<Rightarrow> ('b, 'c) buildByStrategy \<Rightarrow> attributes
    \<Rightarrow> call list \<times> outcome" where
  "Admit k h a attr =
     (let gr = GroupResource (GetResource attr) in
      if gr = Resource k ''buildconfigs'' \<or> gr = LegacyResource k ''buildconfigs''
      then dispatch k h a attr
      else if gr = Resource k ''builds'' \<or> gr = LegacyResource k ''builds''
      then (if GetSubresource attr = ''details'' then ([], Return None)
            else dispatch k h a attr)
      else ([], Return None))"

section \<open>Values for the examples\<close>

text \<open>
  One choice of the constants, of the helper functions and of the two clients, for the
  concrete instances below. The comparison \<open>sameButGC\<close> holds when the two objects are
  equal once their owner references and finalizers are disregarded; the wire objects are
  the internal ones, converted by the identity.
\<close>

definition example_constants :: constants where
  "example_constants =
     \<lparr>GroupName = ''build.openshift.io'', LegacyGroupName = '''',
      ImageOptimizationNone = ''None'',
      DockerBuildResource = ''builds/docker'',
      OptimizedDockerBuildResource = ''builds/optimizeddocker'',
      CustomBuildResource = ''builds/custom'',
      SourceBuildResource = ''builds/source'',
      JenkinsPipelineBuildResource = ''builds/jenkinspipeline''\<rparr>"

definition noStrategy :: buildStrategy where
  "noStrategy = \<lparr>DockerStrategy = None, SourceStrategy = None, CustomStrategy = None,
                  JenkinsPipelineStrategy = None\<rparr>"

definition example_meta :: "string \<Rightarrow> string \<Rightarrow> objectMeta" where
  "example_meta name generateName =
     \<lparr>Name = name, GenerateName = generateName, OwnerReferences = [], Finalizers = []\<rparr>"

definition example_build :: "buildStrategy \<Rightarrow> build" where
  "example_build strategy =
     \<lparr>build_ObjectMeta = example_meta ''b1'' '''', build_Spec = \<lparr>Strategy = strategy\<rparr>\<rparr>"

definition example_buildConfig :: "buildStrategy \<Rightarrow> buildConfig" where
  "example_buildConfig strategy =
     \<lparr>bc_ObjectMeta = example_meta ''bc1'' ''gen-'', bc_Spec = \<lparr>Strategy = strategy\<rparr>\<rparr>"

definition example_request :: "string \<Rightarrow> buildRequest" where
  "example_request name = \<lparr>br_ObjectMeta = example_meta name ''''\<rparr>"

definition clearGC :: "objectMeta \<Rightarrow> objectMeta" where
  "clearGC m = m\<lparr>OwnerReferences := [], Finalizers := []\<rparr>"

fun withoutGC :: "object \<Rightarrow> object" where
  "withoutGC (Build b) = Build (b\<lparr>build_ObjectMeta := clearGC (build_ObjectMeta b)\<rparr>)"
| "withoutGC (BuildConfig c) = BuildConfig (c\<lparr>bc_ObjectMeta := clearGC (bc_ObjectMeta c)\<rparr>)"
| "withoutGC (BuildRequest q) = BuildRequest (q\<lparr>br_ObjectMeta := clearGC (br_ObjectMeta q)\<rparr>)"
| "withoutGC (OtherObject x) = OtherObject x"

definition sameButGC :: "object \<Rightarrow> object \<Rightarrow> bool" where
  "sameButGC obj old = (withoutGC obj = withoutGC old)"

definition example_helpers :: "(build, buildConfig) helpers" where
  "example_helpers =
     \<lparr>IsOnlyMutatingGCFields = sameButGC, ConvertBuild = Inr, ConvertBuildConfig = Inr\<rparr>"

definition failing_helpers :: "(build, buildConfig) helpers" where
  "failing_helpers =
     \<lparr>IsOnlyMutatingGCFields = sameButGC,
      ConvertBuild = (\<lambda>_. Inl ''no conversion''),
      ConvertBuildConfig = (\<lambda>_. Inl ''no conversion'')\<rparr>"

definition example_client :: "(build, buildConfig) buildClientInterface" where
  \<comment> \<open>Namespace \<open>ns\<close> holds the build \<open>b1\<close> and the build configuration \<open>bc1\<close>, both
      with the Source strategy, and nothing else.\<close>
  "example_client =
     \<lparr>Builds_Get = (\<lambda>namespace name.
        if namespace = ''ns'' \<and> name = ''b1''
        then Inr (example_build (noStrategy\<lparr>SourceStrategy := Some SourceBuildStrategy\<rparr>))
        else Inl ''not found''),
      BuildConfigs_Get = (\<lambda>namespace name.
        if namespace = ''ns'' \<and> name = ''bc1''
        then Inr (example_buildConfig (noStrategy\<lparr>SourceStrategy := Some SourceBuildStrategy\<rparr>))
        else Inl ''not found'')\<rparr>"

definition allowing :: "subjectAccessReview \<Rightarrow> upstreamError + subjectAccessReview" where
  "allowing sar = Inr (sar\<lparr>sar_Status := \<lparr>Allowed = True\<rparr>\<rparr>)"

definition denying :: "subjectAccessReview \<Rightarrow> upstreamError + subjectAccessReview" where
  "denying sar = Inr (sar\<lparr>sar_Status := \<lparr>Allowed = False\<rparr>\<rparr>)"

definition failing :: "subjectAccessReview \<Rightarrow> upstreamError + subjectAccessReview" where
  "failing sar = Inl ''connection refused''"

definition example_plugin ::
  "(subjectAccessReview \<Rightarrow> upstreamError + subjectAccessReview)
    \<Rightarrow> (build, buildConfig) buildByStrategy" where
  "example_plugin reviewer = \<lparr>sarClient = Some reviewer, buildClient = Some example_client\<rparr>"

definition example_attributes :: "string \<Rightarrow> string \<Rightarrow> object \<Rightarrow> object option \<Rightarrow> attributes" where
  \<comment> \<open>An update by \<open>alice\<close> in namespace \<open>ns\<close> of the given resource of the build group.\<close>
  "example_attributes resource subresource obj old =
     \<lparr>GetOperation = Update,
      GetResource =
        \<lparr>gvr_Group = ''build.openshift.io'', gvr_Version = ''v1'', gvr_Resource = resource\<rparr>,
      GetSubresource = subresource,
      GetNamespace = ''ns'',
      GetUserInfo = \<lparr>user_Name = ''alice'', user_Groups = [''developers'']\<rparr>,
      GetObject = obj,
      GetOldObject = old\<rparr>"

definition example_query :: "string \<Rightarrow> string \<Rightarrow> string \<Rightarrow> subjectAccessReview" where
  \<comment> \<open>The query of \<open>alice\<close> for creating the named object under a resource and
      subresource of the build group in namespace \<open>ns\<close>.\<close>
  "example_query resource subresource name =
     \<lparr>sar_Spec =
        \<lparr>ResourceAttributes = Some
           \<lparr>ra_Namespace = ''ns'', ra_Verb = ''create'', ra_Group = ''build.openshift.io'',
            ra_Resource = resource, ra_Subresource = subresource, ra_Name = name\<rparr>,
         User = ''alice'',
         Groups = [''developers'']\<rparr>,
      sar_Status = \<lparr>Allowed = False\<rparr>\<rparr>"

lemmas example_defs =
  example_constants_def noStrategy_def example_meta_def example_build_def
  example_buildConfig_def example_request_def clearGC_def sameButGC_def example_helpers_def
  failing_helpers_def example_client_def allowing_def denying_def failing_def
  example_plugin_def example_attributes_def example_query_def

section \<open>Auxiliary facts\<close>

lemma SplitN2_at_first:
  "sep \<notin> set pre \<Longrightarrow> SplitN2 (pre @ sep # post) sep = [pre, post]"
proof -
  assume fresh: "sep \<notin> set pre"
  then have "takeWhile (\<lambda>c. c \<noteq> sep) (pre @ sep # post) = pre"
    by (induction pre) auto
  moreover from fresh have "dropWhile (\<lambda>c. c \<noteq> sep) (pre @ sep # post) = sep # post"
    by (induction pre) auto
  ultimately show ?thesis
    by (simp add: SplitN2_def)
qed

lemma SplitN2_none: "sep \<notin> set s \<Longrightarrow> SplitN2 s sep = [s]"
  by (simp add: SplitN2_def)

lemma tokens_split:
  "sep \<notin> set pre \<Longrightarrow> R = pre @ sep # post \<Longrightarrow>
     SplitN2 R sep ! 0 = pre
     \<and> (if length (SplitN2 R sep) = 2 then SplitN2 R sep ! 1 else '''') = post"
  by (simp add: SplitN2_at_first)

lemma tokens_whole:
  "sep \<notin> set R \<Longrightarrow>
     SplitN2 R sep ! 0 = R
     \<and> (if length (SplitN2 R sep) = 2 then SplitN2 R sep ! 1 else '''') = ''''"
  by (simp add: SplitN2_none)

lemma checkAccess_trace:
  "sarClient a = Some client \<Longrightarrow> fst (checkAccess a s sar attr) = [SarCreate sar]"
  by (simp add: checkAccess_def split: sum.splits)

lemma query_attributes:
  "ResourceAttributes (sar_Spec (AddUserToSAR u (newSAR attr r rt sub meta)))
     = Some \<lparr>ra_Namespace = GetNamespace attr, ra_Verb = ''create'', ra_Group = gr_Group r,
             ra_Resource = rt, ra_Subresource = sub, ra_Name = resourceName meta\<rparr>"
  by (simp add: AddUserToSAR_def newSAR_def)

lemma resourceForStrategyType_error:
  "resourceForStrategyType k s = Inl e \<Longrightarrow> e = UnrecognizedBuildStrategy s"
  by (simp add: resourceForStrategyType_def split: if_splits)

lemma checkAccess_not_unknown:
  "snd (checkAccess a s sar attr) \<noteq> Return (Some (NewForbidden x (UnknownResourceType g)))"
  by (simp add: checkAccess_def notAllowed_def split: option.splits sum.splits)

lemma checkBuildAuthorization_not_unknown:
  "snd (checkBuildAuthorization k a b attr)
     \<noteq> Return (Some (NewForbidden x (UnknownResourceType g)))"
  by (auto simp: checkBuildAuthorization_def Let_def checkAccess_not_unknown
      split: sum.splits dest: resourceForStrategyType_error)

lemma checkBuildConfigAuthorization_not_unknown:
  "snd (checkBuildConfigAuthorization k a c attr)
     \<noteq> Return (Some (NewForbidden x (UnknownResourceType g)))"
  by (auto simp: checkBuildConfigAuthorization_def Let_def checkAccess_not_unknown
      split: sum.splits dest: resourceForStrategyType_error)

lemma checkBuildRequestAuthorization_known:
  assumes "GroupResource (GetResource attr)
             \<in> {Resource k ''buildconfigs'', LegacyResource k ''buildconfigs'',
                 Resource k ''builds'', LegacyResource k ''builds''}"
  shows "snd (checkBuildRequestAuthorization k h a req attr)
     \<noteq> Return (Some (NewForbidden x (UnknownResourceType g)))"
  using assms
  by (auto simp: checkBuildRequestAuthorization_def after_def Let_def
      checkBuildAuthorization_not_unknown checkBuildConfigAuthorization_not_unknown
      split: option.splits sum.splits)

lemma dispatch_known:
  assumes "GroupResource (GetResource attr)
             \<in> {Resource k ''buildconfigs'', LegacyResource k ''buildconfigs'',
                 Resource k ''builds'', LegacyResource k ''builds''}"
  shows "snd (dispatch k h a attr) \<noteq> Return (Some (NewForbidden x (UnknownResourceType g)))"
  by (simp add: dispatch_def checkBuildRequestAuthorization_known [OF assms]
      checkBuildAuthorization_not_unknown checkBuildConfigAuthorization_not_unknown
      split: object.splits)

section \<open>The strategy resource mapper\<close>

text \<open>
  Claim C1. For every strategy, \<open>resourceForStrategyType\<close> answers by the first case that
  matches: a Docker strategy whose image optimization policy is set and differs from the
  "none" policy maps to the optimized Docker resource; a Docker strategy whose policy is
  absent or is the "none" policy maps to the base Docker resource; then Custom, Source and
  JenkinsPipeline map to their resources; a strategy with no variant populated gives the
  error for an unrecognized strategy and no resource.
\<close>

theorem resourceForStrategyType_first_match:
  "(\<forall>ds p. DockerStrategy s = Some ds \<and> ImageOptimizationPolicy ds = Some p
        \<and> p \<noteq> ImageOptimizationNone k
      \<longrightarrow> resourceForStrategyType k s = Inr (Resource k (OptimizedDockerBuildResource k)))
   \<and> (\<forall>ds. DockerStrategy s = Some ds
        \<and> (ImageOptimizationPolicy ds = None
            \<or> ImageOptimizationPolicy ds = Some (ImageOptimizationNone k))
      \<longrightarrow> resourceForStrategyType k s = Inr (Resource k (DockerBuildResource k)))
   \<and> (DockerStrategy s = None \<and> CustomStrategy s \<noteq> None
      \<longrightarrow> resourceForStrategyType k s = Inr (Resource k (CustomBuildResource k)))
   \<and> (DockerStrategy s = None \<and> CustomStrategy s = None \<and> SourceStrategy s \<noteq> None
      \<longrightarrow> resourceForStrategyType k s = Inr (Resource k (SourceBuildResource k)))
   \<and> (DockerStrategy s = None \<and> CustomStrategy s = None \<and> SourceStrategy s = None
        \<and> JenkinsPipelineStrategy s \<noteq> None
      \<longrightarrow> resourceForStrategyType k s = Inr (Resource k (JenkinsPipelineBuildResource k)))
   \<and> (DockerStrategy s = None \<and> CustomStrategy s = None \<and> SourceStrategy s = None
        \<and> JenkinsPipelineStrategy s = None
      \<longrightarrow> resourceForStrategyType k s = Inl (UnrecognizedBuildStrategy s))"
  by (auto simp: resourceForStrategyType_def)

theorem resourceForStrategyType_first_match_witness:
  "resourceForStrategyType example_constants
      (noStrategy\<lparr>DockerStrategy := Some \<lparr>ImageOptimizationPolicy = Some ''SkipLayers''\<rparr>\<rparr>)
     = Inr \<lparr>gr_Group = ''build.openshift.io'', gr_Resource = ''builds/optimizeddocker''\<rparr>
   \<and> resourceForStrategyType example_constants
      (noStrategy\<lparr>DockerStrategy := Some \<lparr>ImageOptimizationPolicy = Some ''None''\<rparr>\<rparr>)
     = Inr \<lparr>gr_Group = ''build.openshift.io'', gr_Resource = ''builds/docker''\<rparr>
   \<and> resourceForStrategyType example_constants
      (noStrategy\<lparr>DockerStrategy := Some \<lparr>ImageOptimizationPolicy = None\<rparr>\<rparr>)
     = Inr \<lparr>gr_Group = ''build.openshift.io'', gr_Resource = ''builds/docker''\<rparr>
   \<and> resourceForStrategyType example_constants
      (noStrategy\<lparr>CustomStrategy := Some CustomBuildStrategy\<rparr>)
     = Inr \<lparr>gr_Group = ''build.openshift.io'', gr_Resource = ''builds/custom''\<rparr>
   \<and> resourceForStrategyType example_constants
      (noStrategy\<lparr>SourceStrategy := Some SourceBuildStrategy\<rparr>)
     = Inr \<lparr>gr_Group = ''build.openshift.io'', gr_Resource = ''builds/source''\<rparr>
   \<and> resourceForStrategyType example_constants
      (noStrategy\<lparr>JenkinsPipelineStrategy := Some JenkinsPipelineBuildStrategy\<rparr>)
     = Inr \<lparr>gr_Group = ''build.openshift.io'', gr_Resource = ''builds/jenkinspipeline''\<rparr>
   \<and> resourceForStrategyType example_constants noStrategy
     = Inl (UnrecognizedBuildStrategy noStrategy)"
  using
    resourceForStrategyType_first_match [of
      "noStrategy\<lparr>DockerStrategy := Some \<lparr>ImageOptimizationPolicy = Some ''SkipLayers''\<rparr>\<rparr>"
      example_constants]
    resourceForStrategyType_first_match [of
      "noStrategy\<lparr>DockerStrategy := Some \<lparr>ImageOptimizationPolicy = Some ''None''\<rparr>\<rparr>"
      example_constants]
    resourceForStrategyType_first_match [of
      "noStrategy\<lparr>DockerStrategy := Some \<lparr>ImageOptimizationPolicy = None\<rparr>\<rparr>"
      example_constants]
    resourceForStrategyType_first_match [of
      "noStrategy\<lparr>CustomStrategy := Some CustomBuildStrategy\<rparr>" example_constants]
    resourceForStrategyType_first_match [of
      "noStrategy\<lparr>SourceStrategy := Some SourceBuildStrategy\<rparr>" example_constants]
    resourceForStrategyType_first_match [of
      "noStrategy\<lparr>JenkinsPipelineStrategy := Some JenkinsPipelineBuildStrategy\<rparr>"
      example_constants]
    resourceForStrategyType_first_match [of noStrategy example_constants]
  by (simp add: noStrategy_def example_constants_def Resource_def)

text \<open>
  Claim C10. A strategy with more than one variant populated is not an error for
  \<open>resourceForStrategyType\<close>: the variant is chosen in the fixed order Docker, Custom,
  Source, JenkinsPipeline, and \<open>strategyTypeString\<close> names the variant chosen in the same
  order, so the resource and the name in the denial message are those of one variant.
\<close>

theorem multi_variant_priority_agrees:
  "(DockerStrategy s \<noteq> None
      \<longrightarrow> resourceForStrategyType k s
            \<in> {Inr (Resource k (OptimizedDockerBuildResource k)),
                Inr (Resource k (DockerBuildResource k))}
          \<and> strategyTypeString s = ''Docker'')
   \<and> (DockerStrategy s = None \<and> CustomStrategy s \<noteq> None
      \<longrightarrow> resourceForStrategyType k s = Inr (Resource k (CustomBuildResource k))
          \<and> strategyTypeString s = ''Custom'')
   \<and> (DockerStrategy s = None \<and> CustomStrategy s = None \<and> SourceStrategy s \<noteq> None
      \<longrightarrow> resourceForStrategyType k s = Inr (Resource k (SourceBuildResource k))
          \<and> strategyTypeString s = ''Source'')
   \<and> (DockerStrategy s = None \<and> CustomStrategy s = None \<and> SourceStrategy s = None
        \<and> JenkinsPipelineStrategy s \<noteq> None
      \<longrightarrow> resourceForStrategyType k s = Inr (Resource k (JenkinsPipelineBuildResource k))
          \<and> strategyTypeString s = ''JenkinsPipeline'')"
  by (auto simp: resourceForStrategyType_def strategyTypeString_def)

theorem multi_variant_priority_agrees_witness:
  "resourceForStrategyType example_constants
      \<lparr>DockerStrategy = Some \<lparr>ImageOptimizationPolicy = None\<rparr>,
       SourceStrategy = Some SourceBuildStrategy,
       CustomStrategy = Some CustomBuildStrategy,
       JenkinsPipelineStrategy = Some JenkinsPipelineBuildStrategy\<rparr>
     = Inr \<lparr>gr_Group = ''build.openshift.io'', gr_Resource = ''builds/docker''\<rparr>
   \<and> strategyTypeString
      \<lparr>DockerStrategy = Some \<lparr>ImageOptimizationPolicy = None\<rparr>,
       SourceStrategy = Some SourceBuildStrategy,
       CustomStrategy = Some CustomBuildStrategy,
       JenkinsPipelineStrategy = Some JenkinsPipelineBuildStrategy\<rparr> = ''Docker''
   \<and> resourceForStrategyType example_constants
      \<lparr>DockerStrategy = None, SourceStrategy = Some SourceBuildStrategy,
       CustomStrategy = Some CustomBuildStrategy,
       JenkinsPipelineStrategy = Some JenkinsPipelineBuildStrategy\<rparr>
     = Inr \<lparr>gr_Group = ''build.openshift.io'', gr_Resource = ''builds/custom''\<rparr>
   \<and> strategyTypeString
      \<lparr>DockerStrategy = None, SourceStrategy = Some SourceBuildStrategy,
       CustomStrategy = Some CustomBuildStrategy,
       JenkinsPipelineStrategy = Some JenkinsPipelineBuildStrategy\<rparr> = ''Custom''
   \<and> resourceForStrategyType example_constants
      \<lparr>DockerStrategy = None, SourceStrategy = Some SourceBuildStrategy,
       CustomStrategy = None,
       JenkinsPipelineStrategy = Some JenkinsPipelineBuildStrategy\<rparr>
     = Inr \<lparr>gr_Group = ''build.openshift.io'', gr_Resource = ''builds/source''\<rparr>
   \<and> strategyTypeString
      \<lparr>DockerStrategy = None, SourceStrategy = Some SourceBuildStrategy,
       CustomStrategy = None,
       JenkinsPipelineStrategy = Some JenkinsPipelineBuildStrategy\<rparr> = ''Source''
   \<and> resourceForStrategyType example_constants
      \<lparr>DockerStrategy = None, SourceStrategy = None, CustomStrategy = None,
       JenkinsPipelineStrategy = Some JenkinsPipelineBuildStrategy\<rparr>
     = Inr \<lparr>gr_Group = ''build.openshift.io'', gr_Resource = ''builds/jenkinspipeline''\<rparr>
   \<and> strategyTypeString
      \<lparr>DockerStrategy = None, SourceStrategy = None, CustomStrategy = None,
       JenkinsPipelineStrategy = Some JenkinsPipelineBuildStrategy\<rparr> = ''JenkinsPipeline''"
  using
    multi_variant_priority_agrees [of
      "\<lparr>DockerStrategy = Some \<lparr>ImageOptimizationPolicy = None\<rparr>,
        SourceStrategy = Some SourceBuildStrategy,
        CustomStrategy = Some CustomBuildStrategy,
        JenkinsPipelineStrategy = Some JenkinsPipelineBuildStrategy\<rparr>" example_constants]
    multi_variant_priority_agrees [of
      "\<lparr>DockerStrategy = None, SourceStrategy = Some SourceBuildStrategy,
        CustomStrategy = Some CustomBuildStrategy,
        JenkinsPipelineStrategy = Some JenkinsPipelineBuildStrategy\<rparr>" example_constants]
    multi_variant_priority_agrees [of
      "\<lparr>DockerStrategy = None, SourceStrategy = Some SourceBuildStrategy,
        CustomStrategy = None,
        JenkinsPipelineStrategy = Some JenkinsPipelineBuildStrategy\<rparr>" example_constants]
    multi_variant_priority_agrees [of
      "\<lparr>DockerStrategy = None, SourceStrategy = None, CustomStrategy = None,
        JenkinsPipelineStrategy = Some JenkinsPipelineBuildStrategy\<rparr>" example_constants]
  by (simp add: example_constants_def Resource_def resourceForStrategyType_def)

section \<open>Initialization\<close>

text \<open>
  Claim C8. \<open>ValidateInitialization\<close> returns an error exactly when the build client or the
  permission reviewer client is nil; with both set it returns no error.
\<close>

theorem ValidateInitialization_iff:
  "(ValidateInitialization a \<noteq> None) = (buildClient a = None \<or> sarClient a = None)"
  by (simp add: ValidateInitialization_def)

section \<open>The access decision\<close>

text \<open>
  Claim C2. When the call to the permission reviewer returns an error, \<open>checkAccess\<close>
  rejects the request with a forbidden error that carries the reviewer's error; when the
  reviewer answers that the request is not allowed, \<open>checkAccess\<close> rejects it as well.
  The request is admitted only if the reviewer answered, and answered that it is allowed.
\<close>

theorem checkAccess_fail_closed:
  "(\<forall>client err. sarClient a = Some client \<and> client sar = Inl err
      \<longrightarrow> checkAccess a s sar attr
          = ([SarCreate sar], Return (Some (NewForbidden attr (Upstream err)))))
   \<and> (\<forall>client resp. sarClient a = Some client \<and> client sar = Inr resp
        \<and> \<not> Allowed (sar_Status resp)
      \<longrightarrow> (\<exists>cause. checkAccess a s sar attr
            = ([SarCreate sar], Return (Some (NewForbidden attr cause)))))
   \<and> (snd (checkAccess a s sar attr) = Return None
      \<longrightarrow> (\<exists>client resp. sarClient a = Some client \<and> client sar = Inr resp
            \<and> Allowed (sar_Status resp)))"
  by (auto simp: checkAccess_def notAllowed_def split: option.splits sum.splits)

theorem checkAccess_fail_closed_witness:
  "checkAccess (example_plugin failing) (noStrategy\<lparr>CustomStrategy := Some CustomBuildStrategy\<rparr>)
      (example_query ''builds'' ''custom'' ''b1'')
      (example_attributes ''builds'' '''' (OtherObject ''Build'') None)
     = ([SarCreate (example_query ''builds'' ''custom'' ''b1'')],
        Return (Some (NewForbidden (example_attributes ''builds'' '''' (OtherObject ''Build'') None)
          (Upstream ''connection refused''))))
   \<and> checkAccess (example_plugin denying) (noStrategy\<lparr>CustomStrategy := Some CustomBuildStrategy\<rparr>)
      (example_query ''builds'' ''custom'' ''b1'')
      (example_attributes ''builds'' '''' (OtherObject ''Build'') None)
     = ([SarCreate (example_query ''builds'' ''custom'' ''b1'')],
        Return (Some (NewForbidden (example_attributes ''builds'' '''' (OtherObject ''Build'') None)
          (Errorf ''build strategy Custom is not allowed''))))
   \<and> snd (checkAccess (example_plugin allowing)
      (noStrategy\<lparr>CustomStrategy := Some CustomBuildStrategy\<rparr>)
      (example_query ''builds'' ''custom'' ''b1'')
      (example_attributes ''builds'' '''' (OtherObject ''Build'') None)) = Return None
   \<and> allowing (example_query ''builds'' ''custom'' ''b1'')
     = Inr ((example_query ''builds'' ''custom'' ''b1'')\<lparr>sar_Status := \<lparr>Allowed = True\<rparr>\<rparr>)"
  using
    checkAccess_fail_closed [where a = "example_plugin failing"
      and s = "noStrategy\<lparr>CustomStrategy := Some CustomBuildStrategy\<rparr>"
      and sar = "example_query ''builds'' ''custom'' ''b1''"
      and attr = "example_attributes ''builds'' '''' (OtherObject ''Build'') None"]
    checkAccess_fail_closed [where a = "example_plugin denying"
      and s = "noStrategy\<lparr>CustomStrategy := Some CustomBuildStrategy\<rparr>"
      and sar = "example_query ''builds'' ''custom'' ''b1''"
      and attr = "example_attributes ''builds'' '''' (OtherObject ''Build'') None"]
    checkAccess_fail_closed [where a = "example_plugin allowing"
      and s = "noStrategy\<lparr>CustomStrategy := Some CustomBuildStrategy\<rparr>"
      and sar = "example_query ''builds'' ''custom'' ''b1''"
      and attr = "example_attributes ''builds'' '''' (OtherObject ''Build'') None"]
  by (simp add: checkAccess_def notAllowed_def strategyTypeString_def example_plugin_def
      failing_def denying_def allowing_def noStrategy_def)

text \<open>
  Claim C7. When the reviewer answers that the request is not allowed, the message of the
  rejection is "build strategy T is not allowed", where T is the name of the strategy
  type: Docker, Custom, Source or JenkinsPipeline for the variant that is populated (the
  first one in that order), and the empty string when none is. So the rejection of a
  Custom strategy reads "build strategy Custom is not allowed".
\<close>

theorem notAllowed_names_strategy:
  assumes "sarClient a = Some client" and "client sar = Inr resp"
    and "\<not> Allowed (sar_Status resp)"
  shows "snd (checkAccess a s sar attr)
      = Return (Some (NewForbidden attr
          (Errorf (''build strategy '' @ strategyTypeString s @ '' is not allowed''))))
    \<and> (DockerStrategy s \<noteq> None \<longrightarrow> strategyTypeString s = ''Docker'')
    \<and> (DockerStrategy s = None \<and> CustomStrategy s \<noteq> None
        \<longrightarrow> strategyTypeString s = ''Custom''
          \<and> snd (checkAccess a s sar attr)
            = Return (Some (NewForbidden attr (Errorf ''build strategy Custom is not allowed''))))
    \<and> (DockerStrategy s = None \<and> CustomStrategy s = None \<and> SourceStrategy s \<noteq> None
        \<longrightarrow> strategyTypeString s = ''Source'')
    \<and> (DockerStrategy s = None \<and> CustomStrategy s = None \<and> SourceStrategy s = None
          \<and> JenkinsPipelineStrategy s \<noteq> None
        \<longrightarrow> strategyTypeString s = ''JenkinsPipeline'')
    \<and> (DockerStrategy s = None \<and> CustomStrategy s = None \<and> SourceStrategy s = None
          \<and> JenkinsPipelineStrategy s = None
        \<longrightarrow> strategyTypeString s = '''')"
  using assms by (auto simp: checkAccess_def notAllowed_def strategyTypeString_def)

theorem notAllowed_names_strategy_witness:
  "snd (checkAccess (example_plugin denying)
        (noStrategy\<lparr>DockerStrategy := Some \<lparr>ImageOptimizationPolicy = None\<rparr>\<rparr>)
        (example_query ''builds'' ''docker'' ''b1'')
        (example_attributes ''builds'' '''' (OtherObject ''Build'') None))
     = Return (Some (NewForbidden (example_attributes ''builds'' '''' (OtherObject ''Build'') None)
         (Errorf ''build strategy Docker is not allowed'')))
   \<and> snd (checkAccess (example_plugin denying)
        (noStrategy\<lparr>CustomStrategy := Some CustomBuildStrategy\<rparr>)
        (example_query ''builds'' ''custom'' ''b1'')
        (example_attributes ''builds'' '''' (OtherObject ''Build'') None))
     = Return (Some (NewForbidden (example_attributes ''builds'' '''' (OtherObject ''Build'') None)
         (Errorf ''build strategy Custom is not allowed'')))
   \<and> snd (checkAccess (example_plugin denying)
        (noStrategy\<lparr>SourceStrategy := Some SourceBuildStrategy\<rparr>)
        (example_query ''builds'' ''source'' ''b1'')
        (example_attributes ''builds'' '''' (OtherObject ''Build'') None))
     = Return (Some (NewForbidden (example_attributes ''builds'' '''' (OtherObject ''Build'') None)
         (Errorf ''build strategy Source is not allowed'')))
   \<and> snd (checkAccess (example_plugin denying)
        (noStrategy\<lparr>JenkinsPipelineStrategy := Some JenkinsPipelineBuildStrategy\<rparr>)
        (example_query ''builds'' ''jenkinspipeline'' ''b1'')
        (example_attributes ''builds'' '''' (OtherObject ''Build'') None))
     = Return (Some (NewForbidden (example_attributes ''builds'' '''' (OtherObject ''Build'') None)
         (Errorf ''build strategy JenkinsPipeline is not allowed'')))
   \<and> snd (checkAccess (example_plugin denying) noStrategy
        (example_query ''builds'' '''' ''b1'')
        (example_attributes ''builds'' '''' (OtherObject ''Build'') None))
     = Return (Some (NewForbidden (example_attributes ''builds'' '''' (OtherObject ''Build'') None)
         (Errorf ''build strategy  is not allowed'')))"
  using
    notAllowed_names_strategy [where a = "example_plugin denying" and client = denying
      and sar = "example_query ''builds'' ''docker'' ''b1''"
      and resp = "(example_query ''builds'' ''docker'' ''b1'')\<lparr>sar_Status := \<lparr>Allowed = False\<rparr>\<rparr>"
      and s = "noStrategy\<lparr>DockerStrategy := Some \<lparr>ImageOptimizationPolicy = None\<rparr>\<rparr>"
      and attr = "example_attributes ''builds'' '''' (OtherObject ''Build'') None"]
    notAllowed_names_strategy [where a = "example_plugin denying" and client = denying
      and sar = "example_query ''builds'' ''custom'' ''b1''"
      and resp = "(example_query ''builds'' ''custom'' ''b1'')\<lparr>sar_Status := \<lparr>Allowed = False\<rparr>\<rparr>"
      and s = "noStrategy\<lparr>CustomStrategy := Some CustomBuildStrategy\<rparr>"
      and attr = "example_attributes ''builds'' '''' (OtherObject ''Build'') None"]
    notAllowed_names_strategy [where a = "example_plugin denying" and client = denying
      and sar = "example_query ''builds'' ''source'' ''b1''"
      and resp = "(example_query ''builds'' ''source'' ''b1'')\<lparr>sar_Status := \<lparr>Allowed = False\<rparr>\<rparr>"
      and s = "noStrategy\<lparr>SourceStrategy := Some SourceBuildStrategy\<rparr>"
      and attr = "example_attributes ''builds'' '''' (OtherObject ''Build'') None"]
    notAllowed_names_strategy [where a = "example_plugin denying" and client = denying
      and sar = "example_query ''builds'' ''jenkinspipeline'' ''b1''"
      and resp = "(example_query ''builds'' ''jenkinspipeline'' ''b1'')\<lparr>sar_Status := \<lparr>Allowed = False\<rparr>\<rparr>"
      and s = "noStrategy\<lparr>JenkinsPipelineStrategy := Some JenkinsPipelineBuildStrategy\<rparr>"
      and attr = "example_attributes ''builds'' '''' (OtherObject ''Build'') None"]
    notAllowed_names_strategy [where a = "example_plugin denying" and client = denying
      and sar = "example_query ''builds'' '''' ''b1''"
      and resp = "(example_query ''builds'' '''' ''b1'')\<lparr>sar_Status := \<lparr>Allowed = False\<rparr>\<rparr>"
      and s = "noStrategy"
      and attr = "example_attributes ''builds'' '''' (OtherObject ''Build'') None"]
  by (simp add: example_plugin_def denying_def noStrategy_def)

section \<open>The admission gate\<close>

text \<open>
  Claim C3. A request on the build configuration or the build resource (of the current
  or the legacy group) that has a previous object, and whose new object differs from the
  previous one in the garbage collection fields only, is admitted by \<open>Admit\<close>: the result
  is the same for every plugin value, so for every answer the reviewer would give, and no
  call is made to the reviewer or to the build client.
\<close>

theorem Admit_gc_only_update_allowed:
  assumes "GroupResource (GetResource attr)
             \<in> {Resource k ''buildconfigs'', LegacyResource k ''buildconfigs'',
                 Resource k ''builds'', LegacyResource k ''builds''}"
    and "GetOldObject attr = Some old"
    and "IsOnlyMutatingGCFields h (GetObject attr) old"
  shows "Admit k h a attr = ([], Return None)"
  using assms by (auto simp: Admit_def dispatch_def Let_def)

theorem Admit_gc_only_update_allowed_witness:
  "GetOperation
      (example_attributes ''builds'' ''''
        (Build ((example_build (noStrategy\<lparr>CustomStrategy := Some CustomBuildStrategy\<rparr>))
          \<lparr>build_ObjectMeta := (example_meta ''b1'' '''')\<lparr>OwnerReferences := [''rc-1'']\<rparr>\<rparr>))
        (Some (Build (example_build (noStrategy\<lparr>CustomStrategy := Some CustomBuildStrategy\<rparr>)))))
     = Update
   \<and> Admit example_constants example_helpers (example_plugin denying)
      (example_attributes ''builds'' ''''
        (Build ((example_build (noStrategy\<lparr>CustomStrategy := Some CustomBuildStrategy\<rparr>))
          \<lparr>build_ObjectMeta := (example_meta ''b1'' '''')\<lparr>OwnerReferences := [''rc-1'']\<rparr>\<rparr>))
        (Some (Build (example_build (noStrategy\<lparr>CustomStrategy := Some CustomBuildStrategy\<rparr>)))))
     = ([], Return None)
   \<and> snd (Admit example_constants example_helpers (example_plugin denying)
      (example_attributes ''builds'' ''''
        (Build ((example_build (noStrategy\<lparr>CustomStrategy := Some CustomBuildStrategy\<rparr>))
          \<lparr>build_ObjectMeta := (example_meta ''b1'' '''')\<lparr>OwnerReferences := [''rc-1'']\<rparr>\<rparr>))
        None))
     \<noteq> Return None"
proof -
  let ?old = "Build (example_build (noStrategy\<lparr>CustomStrategy := Some CustomBuildStrategy\<rparr>))"
  let ?new = "Build ((example_build (noStrategy\<lparr>CustomStrategy := Some CustomBuildStrategy\<rparr>))
          \<lparr>build_ObjectMeta := (example_meta ''b1'' '''')\<lparr>OwnerReferences := [''rc-1'']\<rparr>\<rparr>)"
  let ?attr = "example_attributes ''builds'' '''' ?new (Some ?old)"
  have resource: "GroupResource (GetResource ?attr)
      \<in> {Resource example_constants ''buildconfigs'',
          LegacyResource example_constants ''buildconfigs'',
          Resource example_constants ''builds'', LegacyResource example_constants ''builds''}"
    by (simp add: example_attributes_def GroupResource_def Resource_def example_constants_def)
  have old: "GetOldObject ?attr = Some ?old"
    by (simp add: example_attributes_def)
  have gc: "IsOnlyMutatingGCFields example_helpers (GetObject ?attr) ?old"
    by (simp add: example_helpers_def example_attributes_def sameButGC_def clearGC_def
        example_build_def example_meta_def)
  have update: "GetOperation ?attr = Update"
    by (simp add: example_attributes_def)
  have denied: "snd (Admit example_constants example_helpers (example_plugin denying)
      (example_attributes ''builds'' '''' ?new None)) \<noteq> Return None"
    by (simp add: Admit_def dispatch_def checkBuildAuthorization_def checkAccess_def
        resourceForStrategyType_def Let_def example_defs GroupResource_def Resource_def
        LegacyResource_def)
  show ?thesis
    using Admit_gc_only_update_allowed [OF resource old gc, of "example_plugin denying"]
      update denied
    by simp
qed

text \<open>
  Claim C4. A request on the \<open>details\<close> subresource of the build resource is admitted by
  \<open>Admit\<close> with no call to the reviewer or to the build client; and a request whose
  resource is neither the build configuration nor the build resource is admitted with no
  call either.
\<close>

theorem Admit_bypass_without_calls:
  "(GroupResource (GetResource attr) \<in> {Resource k ''builds'', LegacyResource k ''builds''}
      \<and> GetSubresource attr = ''details''
    \<longrightarrow> Admit k h a attr = ([], Return None))
   \<and> (GroupResource (GetResource attr)
        \<notin> {Resource k ''buildconfigs'', LegacyResource k ''buildconfigs'',
            Resource k ''builds'', LegacyResource k ''builds''}
    \<longrightarrow> Admit k h a attr = ([], Return None))"
  by (auto simp: Admit_def Resource_def LegacyResource_def)

theorem Admit_bypass_without_calls_witness:
  "Admit example_constants example_helpers (example_plugin denying)
      (example_attributes ''builds'' ''details''
        (Build (example_build (noStrategy\<lparr>CustomStrategy := Some CustomBuildStrategy\<rparr>))) None)
     = ([], Return None)
   \<and> Admit example_constants example_helpers (example_plugin denying)
      (example_attributes ''pods'' '''' (OtherObject ''Pod'') None)
     = ([], Return None)"
  using
    Admit_bypass_without_calls [where k = example_constants and h = example_helpers
      and a = "example_plugin denying"
      and attr = "example_attributes ''builds'' ''details''
        (Build (example_build (noStrategy\<lparr>CustomStrategy := Some CustomBuildStrategy\<rparr>))) None"]
    Admit_bypass_without_calls [where k = example_constants and h = example_helpers
      and a = "example_plugin denying"
      and attr = "example_attributes ''pods'' '''' (OtherObject ''Pod'') None"]
  by (simp add: example_attributes_def example_constants_def GroupResource_def Resource_def
      LegacyResource_def)

section \<open>The permission query\<close>

text \<open>
  Claim C5. For a build or a build configuration whose strategy maps to a resource, with
  a reviewer client in place, exactly one query is handed to the reviewer. Its verb is
  "create" whatever the operation of the request is, its namespace is the namespace of
  the request, its group is the group of the mapped resource, its resource and
  subresource are the parts of the mapped resource string before and after its first
  "/" (the whole string and the empty string when it has none), and its name is the
  generate-name of the object when that is not empty, and the name of the object
  otherwise.
\<close>

theorem permission_query_shape:
  assumes client: "sarClient a = Some client"
    and mapped: "resourceForStrategyType k strategy = Inr r"
    and path:
      "(build_ObjectMeta b = meta \<and> Strategy (build_Spec b) = strategy
          \<and> trace = fst (checkBuildAuthorization k a b attr))
       \<or> (bc_ObjectMeta c = meta \<and> Strategy (bc_Spec c) = strategy
          \<and> trace = fst (checkBuildConfigAuthorization k a c attr))"
  shows "\<exists>sar ra. trace = [SarCreate sar]
      \<and> ResourceAttributes (sar_Spec sar) = Some ra
      \<and> ra_Verb ra = ''create''
      \<and> ra_Namespace ra = GetNamespace attr
      \<and> ra_Group ra = gr_Group r
      \<and> ra_Name ra = (if GenerateName meta \<noteq> [] then GenerateName meta else Name meta)
      \<and> (\<forall>pre post. gr_Resource r = pre @ CHR ''/'' # post \<and> CHR ''/'' \<notin> set pre
            \<longrightarrow> ra_Resource ra = pre \<and> ra_Subresource ra = post)
      \<and> (CHR ''/'' \<notin> set (gr_Resource r)
            \<longrightarrow> ra_Resource ra = gr_Resource r \<and> ra_Subresource ra = '''')"
proof -
  let ?tokens = "SplitN2 (gr_Resource r) CHR ''/''"
  let ?rt = "?tokens ! 0"
  let ?sub = "if length ?tokens = 2 then ?tokens ! 1 else ''''"
  let ?sar = "AddUserToSAR (GetUserInfo attr) (newSAR attr r ?rt ?sub meta)"
  let ?ra = "\<lparr>ra_Namespace = GetNamespace attr, ra_Verb = ''create'', ra_Group = gr_Group r,
             ra_Resource = ?rt, ra_Subresource = ?sub, ra_Name = resourceName meta\<rparr>"
  from path have "trace = fst (checkAccess a strategy ?sar attr)"
    using mapped
    by (auto simp: checkBuildAuthorization_def checkBuildConfigAuthorization_def Let_def)
  then have trace: "trace = [SarCreate ?sar]"
    using client by (simp add: checkAccess_trace)
  have attrs: "ResourceAttributes (sar_Spec ?sar) = Some ?ra"
    by (rule query_attributes)
  have name: "ra_Name ?ra = (if GenerateName meta \<noteq> [] then GenerateName meta else Name meta)"
    by (simp add: resourceName_def)
  have split: "\<forall>pre post. gr_Resource r = pre @ CHR ''/'' # post \<and> CHR ''/'' \<notin> set pre
            \<longrightarrow> ra_Resource ?ra = pre \<and> ra_Subresource ?ra = post"
    using tokens_split [of "CHR ''/''"] by simp
  have whole: "CHR ''/'' \<notin> set (gr_Resource r)
            \<longrightarrow> ra_Resource ?ra = gr_Resource r \<and> ra_Subresource ?ra = ''''"
    using tokens_whole [of "CHR ''/''" "gr_Resource r"] by simp
  show ?thesis
    apply (rule exI [of _ ?sar])
    apply (rule exI [of _ ?ra])
    using trace attrs name split whole by simp
qed

theorem permission_query_shape_witness:
  "GetOperation (example_attributes ''builds'' ''''
      (Build (example_build (noStrategy\<lparr>CustomStrategy := Some CustomBuildStrategy\<rparr>))) None)
     = Update
   \<and> (\<exists>sar ra.
        fst (checkBuildAuthorization example_constants (example_plugin allowing)
          (example_build (noStrategy\<lparr>CustomStrategy := Some CustomBuildStrategy\<rparr>))
          (example_attributes ''builds'' ''''
            (Build (example_build (noStrategy\<lparr>CustomStrategy := Some CustomBuildStrategy\<rparr>)))
            None))
          = [SarCreate sar]
        \<and> ResourceAttributes (sar_Spec sar) = Some ra
        \<and> ra_Verb ra = ''create'' \<and> ra_Namespace ra = ''ns''
        \<and> ra_Group ra = ''build.openshift.io'' \<and> ra_Name ra = ''b1''
        \<and> ra_Resource ra = ''builds'' \<and> ra_Subresource ra = ''custom'')
   \<and> (\<exists>sar ra.
        fst (checkBuildConfigAuthorization example_constants (example_plugin denying)
          (example_buildConfig (noStrategy\<lparr>SourceStrategy := Some SourceBuildStrategy\<rparr>))
          (example_attributes ''buildconfigs'' ''''
            (BuildConfig
              (example_buildConfig (noStrategy\<lparr>SourceStrategy := Some SourceBuildStrategy\<rparr>)))
            None))
          = [SarCreate sar]
        \<and> ResourceAttributes (sar_Spec sar) = Some ra
        \<and> ra_Verb ra = ''create'' \<and> ra_Namespace ra = ''ns''
        \<and> ra_Group ra = ''build.openshift.io'' \<and> ra_Name ra = ''gen-''
        \<and> ra_Resource ra = ''builds'' \<and> ra_Subresource ra = ''source'')
   \<and> (\<exists>sar ra.
        fst (checkBuildAuthorization
          (example_constants\<lparr>CustomBuildResource := ''custombuilds''\<rparr>) (example_plugin allowing)
          (example_build (noStrategy\<lparr>CustomStrategy := Some CustomBuildStrategy\<rparr>))
          (example_attributes ''builds'' ''''
            (Build (example_build (noStrategy\<lparr>CustomStrategy := Some CustomBuildStrategy\<rparr>)))
            None))
          = [SarCreate sar]
        \<and> ResourceAttributes (sar_Spec sar) = Some ra
        \<and> ra_Verb ra = ''create'' \<and> ra_Namespace ra = ''ns''
        \<and> ra_Group ra = ''build.openshift.io'' \<and> ra_Name ra = ''b1''
        \<and> ra_Resource ra = ''custombuilds'' \<and> ra_Subresource ra = '''')"
proof -
  let ?custom = "noStrategy\<lparr>CustomStrategy := Some CustomBuildStrategy\<rparr>"
  let ?source = "noStrategy\<lparr>SourceStrategy := Some SourceBuildStrategy\<rparr>"
  let ?k = "example_constants\<lparr>CustomBuildResource := ''custombuilds''\<rparr>"
  let ?attr = "example_attributes ''builds'' '''' (Build (example_build ?custom)) None"
  let ?attr' = "example_attributes ''buildconfigs'' ''''
    (BuildConfig (example_buildConfig ?source)) None"
  have update: "GetOperation ?attr = Update"
    by (simp add: example_attributes_def)
  have ns: "GetNamespace ?attr = ''ns''" "GetNamespace ?attr' = ''ns''"
    by (simp_all add: example_attributes_def)
  have allowing: "sarClient (example_plugin allowing) = Some allowing"
    and denying: "sarClient (example_plugin denying) = Some denying"
    by (simp_all add: example_plugin_def)
  have custom: "resourceForStrategyType example_constants ?custom
      = Inr \<lparr>gr_Group = ''build.openshift.io'', gr_Resource = ''builds/custom''\<rparr>"
    and source: "resourceForStrategyType example_constants ?source
      = Inr \<lparr>gr_Group = ''build.openshift.io'', gr_Resource = ''builds/source''\<rparr>"
    and custom': "resourceForStrategyType ?k ?custom
      = Inr \<lparr>gr_Group = ''build.openshift.io'', gr_Resource = ''custombuilds''\<rparr>"
    by (simp_all add: resourceForStrategyType_def Resource_def example_constants_def
        noStrategy_def)
  have build: "build_ObjectMeta (example_build ?custom) = example_meta ''b1'' ''''
      \<and> Strategy (build_Spec (example_build ?custom)) = ?custom"
    and config: "bc_ObjectMeta (example_buildConfig ?source) = example_meta ''bc1'' ''gen-''
      \<and> Strategy (bc_Spec (example_buildConfig ?source)) = ?source"
    by (simp_all add: example_build_def example_buildConfig_def)
  have names: "GenerateName (example_meta ''b1'' '''') = ''''"
    "Name (example_meta ''b1'' '''') = ''b1''"
    "GenerateName (example_meta ''bc1'' ''gen-'') = ''gen-''"
    by (simp_all add: example_meta_def)
  have first: "\<exists>sar ra.
      fst (checkBuildAuthorization example_constants (example_plugin allowing)
        (example_build ?custom) ?attr) = [SarCreate sar]
      \<and> ResourceAttributes (sar_Spec sar) = Some ra
      \<and> ra_Verb ra = ''create'' \<and> ra_Namespace ra = ''ns''
      \<and> ra_Group ra = ''build.openshift.io'' \<and> ra_Name ra = ''b1''
      \<and> ra_Resource ra = ''builds'' \<and> ra_Subresource ra = ''custom''"
  proof -
    from permission_query_shape [OF allowing custom, where b = "example_build ?custom"
        and meta = "example_meta ''b1'' ''''" and attr = ?attr
        and trace = "fst (checkBuildAuthorization example_constants (example_plugin allowing)
          (example_build ?custom) ?attr)"] build
    obtain sar ra where
      trace: "fst (checkBuildAuthorization example_constants (example_plugin allowing)
          (example_build ?custom) ?attr) = [SarCreate sar]"
      and ra: "ResourceAttributes (sar_Spec sar) = Some ra" "ra_Verb ra = ''create''"
        "ra_Namespace ra = GetNamespace ?attr"
        "ra_Group ra = gr_Group \<lparr>gr_Group = ''build.openshift.io'', gr_Resource = ''builds/custom''\<rparr>"
        "ra_Name ra = (if GenerateName (example_meta ''b1'' '''') \<noteq> []
           then GenerateName (example_meta ''b1'' '''') else Name (example_meta ''b1'' ''''))"
      and split: "\<forall>pre post.
          gr_Resource \<lparr>gr_Group = ''build.openshift.io'', gr_Resource = ''builds/custom''\<rparr>
            = pre @ CHR ''/'' # post \<and> CHR ''/'' \<notin> set pre
          \<longrightarrow> ra_Resource ra = pre \<and> ra_Subresource ra = post"
      by blast
    have "gr_Resource \<lparr>gr_Group = ''build.openshift.io'', gr_Resource = ''builds/custom''\<rparr>
        = ''builds'' @ CHR ''/'' # ''custom'' \<and> CHR ''/'' \<notin> set ''builds''"
      by simp
    with split have "ra_Resource ra = ''builds'' \<and> ra_Subresource ra = ''custom''"
      by blast
    with trace ra ns names show ?thesis
      by auto
  qed
  have second: "\<exists>sar ra.
      fst (checkBuildConfigAuthorization example_constants (example_plugin denying)
        (example_buildConfig ?source) ?attr') = [SarCreate sar]
      \<and> ResourceAttributes (sar_Spec sar) = Some ra
      \<and> ra_Verb ra = ''create'' \<and> ra_Namespace ra = ''ns''
      \<and> ra_Group ra = ''build.openshift.io'' \<and> ra_Name ra = ''gen-''
      \<and> ra_Resource ra = ''builds'' \<and> ra_Subresource ra = ''source''"
  proof -
    from permission_query_shape [OF denying source,
        where c = "example_buildConfig ?source"
        and meta = "example_meta ''bc1'' ''gen-''" and attr = ?attr'
        and trace = "fst (checkBuildConfigAuthorization example_constants
          (example_plugin denying) (example_buildConfig ?source) ?attr')"] config
    obtain sar ra where
      trace: "fst (checkBuildConfigAuthorization example_constants (example_plugin denying)
          (example_buildConfig ?source) ?attr') = [SarCreate sar]"
      and ra: "ResourceAttributes (sar_Spec sar) = Some ra" "ra_Verb ra = ''create''"
        "ra_Namespace ra = GetNamespace ?attr'"
        "ra_Group ra = gr_Group \<lparr>gr_Group = ''build.openshift.io'', gr_Resource = ''builds/source''\<rparr>"
        "ra_Name ra = (if GenerateName (example_meta ''bc1'' ''gen-'') \<noteq> []
           then GenerateName (example_meta ''bc1'' ''gen-'') else Name (example_meta ''bc1'' ''gen-''))"
      and split: "\<forall>pre post.
          gr_Resource \<lparr>gr_Group = ''build.openshift.io'', gr_Resource = ''builds/source''\<rparr>
            = pre @ CHR ''/'' # post \<and> CHR ''/'' \<notin> set pre
          \<longrightarrow> ra_Resource ra = pre \<and> ra_Subresource ra = post"
      by blast
    have "gr_Resource \<lparr>gr_Group = ''build.openshift.io'', gr_Resource = ''builds/source''\<rparr>
        = ''builds'' @ CHR ''/'' # ''source'' \<and> CHR ''/'' \<notin> set ''builds''"
      by simp
    with split have "ra_Resource ra = ''builds'' \<and> ra_Subresource ra = ''source''"
      by blast
    with trace ra ns names show ?thesis
      by auto
  qed
  have third: "\<exists>sar ra.
      fst (checkBuildAuthorization ?k (example_plugin allowing)
        (example_build ?custom) ?attr) = [SarCreate sar]
      \<and> ResourceAttributes (sar_Spec sar) = Some ra
      \<and> ra_Verb ra = ''create'' \<and> ra_Namespace ra = ''ns''
      \<and> ra_Group ra = ''build.openshift.io'' \<and> ra_Name ra = ''b1''
      \<and> ra_Resource ra = ''custombuilds'' \<and> ra_Subresource ra = ''''"
  proof -
    from permission_query_shape [OF allowing custom', where b = "example_build ?custom"
        and meta = "example_meta ''b1'' ''''" and attr = ?attr
        and trace = "fst (checkBuildAuthorization ?k (example_plugin allowing)
          (example_build ?custom) ?attr)"] build
    obtain sar ra where
      trace: "fst (checkBuildAuthorization ?k (example_plugin allowing)
          (example_build ?custom) ?attr) = [SarCreate sar]"
      and ra: "ResourceAttributes (sar_Spec sar) = Some ra" "ra_Verb ra = ''create''"
        "ra_Namespace ra = GetNamespace ?attr"
        "ra_Group ra = gr_Group \<lparr>gr_Group = ''build.openshift.io'', gr_Resource = ''custombuilds''\<rparr>"
        "ra_Name ra = (if GenerateName (example_meta ''b1'' '''') \<noteq> []
           then GenerateName (example_meta ''b1'' '''') else Name (example_meta ''b1'' ''''))"
      and whole: "CHR ''/''
          \<notin> set (gr_Resource \<lparr>gr_Group = ''build.openshift.io'', gr_Resource = ''custombuilds''\<rparr>)
          \<longrightarrow> ra_Resource ra
              = gr_Resource \<lparr>gr_Group = ''build.openshift.io'', gr_Resource = ''custombuilds''\<rparr>
            \<and> ra_Subresource ra = ''''"
      by blast
    have "CHR ''/''
        \<notin> set (gr_Resource \<lparr>gr_Group = ''build.openshift.io'', gr_Resource = ''custombuilds''\<rparr>)"
      by simp
    with whole have "ra_Resource ra = ''custombuilds'' \<and> ra_Subresource ra = ''''"
      by simp
    with trace ra ns names show ?thesis
      by auto
  qed
  from update first second third show ?thesis
    by (intro conjI)
qed

section \<open>Indirect requests\<close>

text \<open>
  Claim C6. For a build request on the build or the build configuration resource, when
  the lookup of the named object in the namespace of the request fails, or the conversion
  of the object found fails, the result is a forbidden error that carries the error of
  the lookup or of the conversion, and the only client call made is the lookup: the
  reviewer is not called. When the resource of the request is neither of the two, the
  result is a forbidden error that names the resource, and no client call is made.
\<close>

theorem checkBuildRequestAuthorization_failures:
  "(\<forall>client err.
      GroupResource (GetResource attr) \<in> {Resource k ''builds'', LegacyResource k ''builds''}
      \<and> buildClient a = Some client
      \<and> Builds_Get client (GetNamespace attr) (Name (br_ObjectMeta req)) = Inl err
    \<longrightarrow> checkBuildRequestAuthorization k h a req attr
        = ([BuildsGet (GetNamespace attr) (Name (br_ObjectMeta req))],
           Return (Some (NewForbidden attr (Upstream err)))))
   \<and> (\<forall>client wire err.
      GroupResource (GetResource attr) \<in> {Resource k ''builds'', LegacyResource k ''builds''}
      \<and> buildClient a = Some client
      \<and> Builds_Get client (GetNamespace attr) (Name (br_ObjectMeta req)) = Inr wire
      \<and> ConvertBuild h wire = Inl err
    \<longrightarrow> checkBuildRequestAuthorization k h a req attr
        = ([BuildsGet (GetNamespace attr) (Name (br_ObjectMeta req))],
           Return (Some (NewForbidden attr (Upstream err)))))
   \<and> (\<forall>client err.
      GroupResource (GetResource attr)
        \<in> {Resource k ''buildconfigs'', LegacyResource k ''buildconfigs''}
      \<and> buildClient a = Some client
      \<and> BuildConfigs_Get client (GetNamespace attr) (Name (br_ObjectMeta req)) = Inl err
    \<longrightarrow> checkBuildRequestAuthorization k h a req attr
        = ([BuildConfigsGet (GetNamespace attr) (Name (br_ObjectMeta req))],
           Return (Some (NewForbidden attr (Upstream err)))))
   \<and> (\<forall>client wire err.
      GroupResource (GetResource attr)
        \<in> {Resource k ''buildconfigs'', LegacyResource k ''buildconfigs''}
      \<and> buildClient a = Some client
      \<and> BuildConfigs_Get client (GetNamespace attr) (Name (br_ObjectMeta req)) = Inr wire
      \<and> ConvertBuildConfig h wire = Inl err
    \<longrightarrow> checkBuildRequestAuthorization k h a req attr
        = ([BuildConfigsGet (GetNamespace attr) (Name (br_ObjectMeta req))],
           Return (Some (NewForbidden attr (Upstream err)))))
   \<and> (GroupResource (GetResource attr)
        \<notin> {Resource k ''buildconfigs'', LegacyResource k ''buildconfigs'',
            Resource k ''builds'', LegacyResource k ''builds''}
    \<longrightarrow> checkBuildRequestAuthorization k h a req attr
        = ([], Return (Some (NewForbidden attr (UnknownResourceType (GetResource attr))))))"
  by (auto simp: checkBuildRequestAuthorization_def Resource_def LegacyResource_def)

theorem checkBuildRequestAuthorization_failures_witness:
  "checkBuildRequestAuthorization example_constants example_helpers (example_plugin allowing)
      (example_request ''missing'')
      (example_attributes ''builds'' ''clone'' (BuildRequest (example_request ''missing'')) None)
     = ([BuildsGet ''ns'' ''missing''],
        Return (Some (NewForbidden
          (example_attributes ''builds'' ''clone'' (BuildRequest (example_request ''missing'')) None)
          (Upstream ''not found''))))
   \<and> checkBuildRequestAuthorization example_constants failing_helpers (example_plugin allowing)
      (example_request ''b1'')
      (example_attributes ''builds'' ''clone'' (BuildRequest (example_request ''b1'')) None)
     = ([BuildsGet ''ns'' ''b1''],
        Return (Some (NewForbidden
          (example_attributes ''builds'' ''clone'' (BuildRequest (example_request ''b1'')) None)
          (Upstream ''no conversion''))))
   \<and> checkBuildRequestAuthorization example_constants example_helpers (example_plugin allowing)
      (example_request ''missing'')
      (example_attributes ''buildconfigs'' ''instantiate''
        (BuildRequest (example_request ''missing'')) None)
     = ([BuildConfigsGet ''ns'' ''missing''],
        Return (Some (NewForbidden
          (example_attributes ''buildconfigs'' ''instantiate''
            (BuildRequest (example_request ''missing'')) None)
          (Upstream ''not found''))))
   \<and> checkBuildRequestAuthorization example_constants failing_helpers (example_plugin allowing)
      (example_request ''bc1'')
      (example_attributes ''buildconfigs'' ''instantiate''
        (BuildRequest (example_request ''bc1'')) None)
     = ([BuildConfigsGet ''ns'' ''bc1''],
        Return (Some (NewForbidden
          (example_attributes ''buildconfigs'' ''instantiate''
            (BuildRequest (example_request ''bc1'')) None)
          (Upstream ''no conversion''))))
   \<and> checkBuildRequestAuthorization example_constants example_helpers (example_plugin allowing)
      (example_request ''b1'')
      (example_attributes ''pods'' '''' (BuildRequest (example_request ''b1'')) None)
     = ([],
        Return (Some (NewForbidden
          (example_attributes ''pods'' '''' (BuildRequest (example_request ''b1'')) None)
          (UnknownResourceType
            \<lparr>gvr_Group = ''build.openshift.io'', gvr_Version = ''v1'',
             gvr_Resource = ''pods''\<rparr>))))"
  using
    checkBuildRequestAuthorization_failures [where k = example_constants
      and h = example_helpers and a = "example_plugin allowing"
      and req = "example_request ''missing''"
      and attr = "example_attributes ''builds'' ''clone''
        (BuildRequest (example_request ''missing'')) None"]
    checkBuildRequestAuthorization_failures [where k = example_constants
      and h = failing_helpers and a = "example_plugin allowing"
      and req = "example_request ''b1''"
      and attr = "example_attributes ''builds'' ''clone''
        (BuildRequest (example_request ''b1'')) None"]
    checkBuildRequestAuthorization_failures [where k = example_constants
      and h = example_helpers and a = "example_plugin allowing"
      and req = "example_request ''missing''"
      and attr = "example_attributes ''buildconfigs'' ''instantiate''
        (BuildRequest (example_request ''missing'')) None"]
    checkBuildRequestAuthorization_failures [where k = example_constants
      and h = failing_helpers and a = "example_plugin allowing"
      and req = "example_request ''bc1''"
      and attr = "example_attributes ''buildconfigs'' ''instantiate''
        (BuildRequest (example_request ''bc1'')) None"]
    checkBuildRequestAuthorization_failures [where k = example_constants
      and h = example_helpers and a = "example_plugin allowing"
      and req = "example_request ''b1''"
      and attr = "example_attributes ''pods'' '''' (BuildRequest (example_request ''b1'')) None"]
  by (simp add: checkBuildRequestAuthorization_def GroupResource_def Resource_def
      LegacyResource_def Let_def example_defs)

text \<open>
  Claim C9. Through \<open>Admit\<close>, the branch of \<open>checkBuildRequestAuthorization\<close> for an
  unknown resource type is never taken: \<open>Admit\<close> never returns the error of that branch,
  and for a build request it either admits the request at once or hands it to
  \<open>checkBuildRequestAuthorization\<close> with the resource of the request being the build or
  the build configuration resource, of the current or the legacy group, which are the
  cases the branch excludes.
\<close>

theorem Admit_never_unknown_resource_type:
  "snd (Admit k h a attr) \<noteq> Return (Some (NewForbidden x (UnknownResourceType g)))
   \<and> (GetObject attr = BuildRequest req
      \<longrightarrow> Admit k h a attr = ([], Return None)
        \<or> (GroupResource (GetResource attr)
              \<in> {Resource k ''buildconfigs'', LegacyResource k ''buildconfigs'',
                  Resource k ''builds'', LegacyResource k ''builds''}
            \<and> Admit k h a attr = checkBuildRequestAuthorization k h a req attr))"
proof
  show "snd (Admit k h a attr) \<noteq> Return (Some (NewForbidden x (UnknownResourceType g)))"
    using dispatch_known [of attr k h a x g]
    by (auto simp: Admit_def Let_def)
next
  show "GetObject attr = BuildRequest req
      \<longrightarrow> Admit k h a attr = ([], Return None)
        \<or> (GroupResource (GetResource attr)
              \<in> {Resource k ''buildconfigs'', LegacyResource k ''buildconfigs'',
                  Resource k ''builds'', LegacyResource k ''builds''}
            \<and> Admit k h a attr = checkBuildRequestAuthorization k h a req attr)"
    by (auto simp: Admit_def dispatch_def Let_def)
qed

theorem Admit_never_unknown_resource_type_witness:
  "Admit example_constants example_helpers (example_plugin allowing)
      (example_attributes ''pods'' '''' (BuildRequest (example_request ''b1'')) None)
     = ([], Return None)
   \<and> checkBuildRequestAuthorization example_constants example_helpers (example_plugin allowing)
      (example_request ''b1'')
      (example_attributes ''pods'' '''' (BuildRequest (example_request ''b1'')) None)
     \<noteq> ([], Return None)
   \<and> Admit example_constants example_helpers (example_plugin allowing)
      (example_attributes ''builds'' ''clone'' (BuildRequest (example_request ''b1'')) None)
     = ([BuildsGet ''ns'' ''b1'', SarCreate (example_query ''builds'' ''source'' ''b1'')],
        Return None)
   \<and> Admit example_constants example_helpers (example_plugin allowing)
      (example_attributes ''builds'' ''clone'' (BuildRequest (example_request ''b1'')) None)
     = checkBuildRequestAuthorization example_constants example_helpers
        (example_plugin allowing) (example_request ''b1'')
        (example_attributes ''builds'' ''clone'' (BuildRequest (example_request ''b1'')) None)"
  using
    Admit_never_unknown_resource_type [where k = example_constants and h = example_helpers
      and a = "example_plugin allowing" and req = "example_request ''b1''"
      and attr = "example_attributes ''pods'' '''' (BuildRequest (example_request ''b1'')) None"]
    Admit_never_unknown_resource_type [where k = example_constants and h = example_helpers
      and a = "example_plugin allowing" and req = "example_request ''b1''"
      and attr = "example_attributes ''builds'' ''clone''
        (BuildRequest (example_request ''b1'')) None"]
  by (simp add: Admit_def dispatch_def checkBuildRequestAuthorization_def after_def
      checkBuildAuthorization_def checkAccess_def resourceForStrategyType_def resourceName_def
      SplitN2_def AddUserToSAR_def newSAR_def GroupResource_def Resource_def
      LegacyResource_def Let_def example_defs)

end
